theory Spec2Isabelle
  imports Main
begin

section \<open>Payment confirmation screen: data\<close>

text \<open>
  The screen \<open>SendBitcoinConfirmationScreen\<close> is a function of its route parameters, of
  what its hooks return, and of two pieces of React state (\<open>errs\<close> and \<open>status\<close>).
  JavaScript numbers are kept abstract: the type variable \<open>'n\<close> stands for them, and the
  screen only ever uses \<open>+\<close>, \<open>>\<close> and the comparison with \<open>0\<close> on them, so
  every result below holds for whatever these three mean on the numbers at hand.
\<close>

datatype currency = BTC | USD

record 'n MoneyAmount =
  amount_value :: 'n
  amount_currency :: currency

text \<open>The fields read from \<open>route.params\<close>.\<close>

record 'n params =
  address :: string
  amountless :: bool
  invoice :: string
  memo :: string
  paymentType :: string
  primaryCurrency :: currency
  referenceAmount :: "'n MoneyAmount"
  sameNode :: bool
  username :: string

text \<open>
  The selection set of all four mutations is \<open>errors { message }\<close> and \<open>status\<close>.
  A top-level GraphQL error carries more than its message; \<open>error_rest\<close> stands for the
  fields the screen drops.
\<close>

datatype err = Message (message: string)

record payload =
  payload_errors :: "err list"
  payload_status :: string

datatype graphql_error = GraphQLError (error_message: string) (error_rest: string)

text \<open>
  What awaiting a mutation gives. \<open>Rejected e\<close>: the promise rejects, \<open>e\<close> being the
  text the thrown value has inside a template literal. \<open>NoData e\<close>: the promise resolves
  but \<open>data\<close> or the field of the mutation in it is null, so that reading \<open>status\<close>
  raises a TypeError inside the \<open>try\<close> block, rendered as \<open>e\<close>.
  \<open>Resolved p es\<close>: the payload of the mutation and the optional top-level \<open>errors\<close>.
\<close>

datatype response =
    Rejected string
  | NoData string
  | Resolved payload "graphql_error list option"

text \<open>The four mutations with the fields of their \<open>input\<close> variable, in source order.\<close>

datatype 'n mutation =
    LnInvoicePaymentSend string string
  | LnNoAmountInvoicePaymentSend string 'n string
  | IntraLedgerPaymentSend string 'n string
  | OnChainPaymentSend string 'n string

text \<open>
  \<open>useMutation\<close> is given \<open>update: () => queryTransactions()\<close> for three of the four
  mutations; the Apollo client runs it, not the screen.
\<close>

fun hasUpdate :: "'n mutation \<Rightarrow> bool" where
  "hasUpdate (LnInvoicePaymentSend _ _) = True"
| "hasUpdate (LnNoAmountInvoicePaymentSend _ _ _) = False"
| "hasUpdate (IntraLedgerPaymentSend _ _ _) = True"
| "hasUpdate (OnChainPaymentSend _ _ _) = True"

record 'n fee =
  fee_value :: "'n option"

text \<open>
  What the screen takes from outside this file: the hooks \<open>useCurrencyConverter\<close>,
  \<open>useBTCPrice\<close> and \<open>useFee\<close>, the cached wallet balance \<open>balanceBtc(client)\<close>,
  \<open>UsernameValidation.isValid\<close>, the i18n function \<open>translate\<close> (key and interpolation
  options), \<open>textCurrencyFormatting\<close>, and the backend that answers each mutation.
\<close>

record 'n env =
  currencyConverter :: "currency \<Rightarrow> currency \<Rightarrow> 'n \<Rightarrow> 'n"
  btcPrice :: 'n
  fee :: "'n fee"
  balance :: 'n
  isValid :: "string \<Rightarrow> bool"
  translate :: "string \<Rightarrow> (string \<times> string) list \<Rightarrow> string"
  textCurrencyFormatting :: "'n \<Rightarrow> 'n \<Rightarrow> currency \<Rightarrow> string"
  respond :: "'n mutation \<Rightarrow> response"

text \<open>The React state of the screen; \<open>StatusType\<close> is a union of string literals.\<close>

record state =
  errs :: "err list"
  status :: string

definition Status_IDLE :: string where "Status_IDLE = ''idle''"
definition Status_LOADING :: string where "Status_LOADING = ''loading''"
definition Status_PENDING :: string where "Status_PENDING = ''pending''"
definition Status_SUCCESS :: string where "Status_SUCCESS = ''success''"
definition Status_ERROR :: string where "Status_ERROR = ''error''"

definition initial_state :: state where
  "initial_state = \<lparr>errs = [], status = Status_IDLE\<rparr>"

text \<open>
  Everything a callback of the screen does, in the order it does it: the two state
  setters, a mutation handed to the Apollo client, \<open>queryWallet\<close>, \<open>console.log\<close>
  (its constant tag), \<open>navigation.pop\<close>, and the haptic trigger.
\<close>

datatype 'n effect =
    SetStatus string
  | SetErrs "err list"
  | Mutate "'n mutation"
  | QueryWallet
  | ConsoleLog string
  | NavPop nat
  | HapticTrigger "string option"

fun apply_effect :: "state \<Rightarrow> 'n effect \<Rightarrow> state" where
  "apply_effect st (SetStatus s) = st\<lparr>status := s\<rparr>"
| "apply_effect st (SetErrs es) = st\<lparr>errs := es\<rparr>"
| "apply_effect st _ = st"

definition run :: "state \<Rightarrow> 'n effect list \<Rightarrow> state" where
  "run st effs = foldl apply_effect st effs"

fun mutations :: "'n effect list \<Rightarrow> 'n mutation list" where
  "mutations [] = []"
| "mutations (Mutate m # effs) = m # mutations effs"
| "mutations (_ # effs) = mutations effs"

fun statuses :: "'n effect list \<Rightarrow> string list" where
  "statuses [] = []"
| "statuses (SetStatus s # effs) = s # statuses effs"
| "statuses (_ # effs) = statuses effs"

section \<open>Payment confirmation screen: operations\<close>

definition convertCurrency ::
  "(currency \<Rightarrow> currency \<Rightarrow> 'n \<Rightarrow> 'n) \<Rightarrow> 'n \<Rightarrow> currency \<Rightarrow> currency \<Rightarrow> 'n" where
  "convertCurrency converter amount from to =
     (if from = to then amount else converter from to amount)"

definition paymentSatAmount :: "'n params \<Rightarrow> 'n env \<Rightarrow> 'n" where
  "paymentSatAmount P E =
     convertCurrency (currencyConverter E)
       (amount_value (referenceAmount P)) (amount_currency (referenceAmount P)) BTC"

definition handlePaymentReturn :: "string \<Rightarrow> err list \<Rightarrow> 'n effect list" where
  "handlePaymentReturn st errors =
     (if st = ''SUCCESS'' then [QueryWallet, SetStatus Status_SUCCESS]
      else if st = ''PENDING'' then [SetStatus Status_PENDING]
      else [SetStatus Status_ERROR, SetErrs errors])"

definition handlePaymentError :: "string \<Rightarrow> 'n effect list" where
  "handlePaymentError error =
     [ConsoleLog ''error loop'',
      SetStatus Status_ERROR,
      SetErrs [Message (''an error occured. try again later'' @ [CHR 0x0A] @ error)]]"

text \<open>
  The body of the \<open>try\<close> block after the \<open>await\<close>, the same in the four functions:
  a rejection or a TypeError goes to the \<open>catch\<close>; otherwise a defined top-level
  \<open>errors\<close> (an empty array is truthy) is mapped to its messages, and the payload's
  own errors are taken when there is none.
\<close>

definition afterAwait :: "response \<Rightarrow> 'n effect list" where
  "afterAwait r =
     (case r of
        Rejected e \<Rightarrow> handlePaymentError e
      | NoData e \<Rightarrow> handlePaymentError e
      | Resolved p errors \<Rightarrow>
          handlePaymentReturn (payload_status p)
            (case errors of
               Some es \<Rightarrow> map (\<lambda>error. Message (error_message error)) es
             | None \<Rightarrow> payload_errors p))"

definition payUsername :: "'n params \<Rightarrow> 'n env \<Rightarrow> 'n effect list" where
  "payUsername P E =
     (if \<not> isValid E (username P) then
        [SetStatus Status_ERROR,
         SetErrs [Message (translate E ''SendBitcoinScreen.invalidUsername'' [])]]
      else
        (let m = IntraLedgerPaymentSend (username P) (paymentSatAmount P E) (memo P)
         in [SetErrs [], SetStatus Status_LOADING, Mutate m] @ afterAwait (respond E m)))"

definition payLightning :: "'n params \<Rightarrow> 'n env \<Rightarrow> 'n effect list" where
  "payLightning P E =
     (let m = LnInvoicePaymentSend (invoice P) (memo P)
      in [SetErrs [], SetStatus Status_LOADING, Mutate m] @ afterAwait (respond E m))"

definition payAmountlessLightning :: "('n::zero) params \<Rightarrow> 'n env \<Rightarrow> 'n effect list" where
  "payAmountlessLightning P E =
     (if paymentSatAmount P E = 0 then
        [SetStatus Status_ERROR,
         SetErrs [Message (translate E ''SendBitcoinScreen.noAmount'' [])]]
      else
        (let m = LnNoAmountInvoicePaymentSend (invoice P) (paymentSatAmount P E) (memo P)
         in [SetErrs [], SetStatus Status_LOADING, Mutate m] @ afterAwait (respond E m)))"

definition payOnchain :: "('n::zero) params \<Rightarrow> 'n env \<Rightarrow> 'n effect list" where
  "payOnchain P E =
     (if paymentSatAmount P E = 0 then
        [SetStatus Status_ERROR,
         SetErrs [Message (translate E ''SendBitcoinScreen.noAmount'' [])]]
      else
        (let m = OnChainPaymentSend (address P) (paymentSatAmount P E) (memo P)
         in [SetErrs [], SetStatus Status_LOADING, ConsoleLog ''AAAA'', Mutate m]
            @ afterAwait (respond E m)))"

definition pay :: "('n::zero) params \<Rightarrow> 'n env \<Rightarrow> 'n effect list" where
  "pay P E =
     (if paymentType P = ''username'' then payUsername P E
      else if paymentType P = ''lightning'' then
        (if amountless P then payAmountlessLightning P E else payLightning P E)
      else if paymentType P = ''onchain'' then payOnchain P E
      else [])"

text \<open>The \<open>useEffect\<close> on \<open>status\<close>: what runs after a render in which it changed.\<close>

definition hapticEffect :: "string \<Rightarrow> 'n effect list" where
  "hapticEffect st =
     (if st = ''loading'' \<or> st = ''idle'' then []
      else
        (let notificationType = None;
             notificationType =
               (if st = Status_PENDING \<or> st = Status_ERROR then Some ''notificationError''
                else notificationType);
             notificationType =
               (if st = Status_SUCCESS then Some ''notificationSuccess''
                else notificationType)
         in [HapticTrigger notificationType]))"

definition totalAmount :: "('n::plus) params \<Rightarrow> 'n env \<Rightarrow> 'n" where
  "totalAmount P E =
     (case fee_value (fee E) of
        None \<Rightarrow> paymentSatAmount P E
      | Some v \<Rightarrow> paymentSatAmount P E + v)"

definition errorMessage :: "('n::{plus,ord}) params \<Rightarrow> 'n env \<Rightarrow> string" where
  "errorMessage P E =
     (if totalAmount P E > balance E then
        translate E ''SendBitcoinConfirmationScreen.totalExceed''
          [(''balance'', textCurrencyFormatting E (balance E) (btcPrice E) (primaryCurrency P))]
      else [])"

text \<open>
  \<open>invoice.substr(0, 18)\<close> is the first 18 characters and \<open>invoice.substr(-18)\<close> the
  last 18, the whole string when it is shorter.
\<close>

definition destination :: "'n params \<Rightarrow> string" where
  "destination P =
     (if paymentType P = ''username'' then username P
      else if paymentType P = ''lightning'' then
        take 18 (invoice P) @ ''...'' @ drop (length (invoice P) - 18) (invoice P)
      else if paymentType P = ''onchain'' then address P
      else [])"

definition primaryAmount :: "'n params \<Rightarrow> 'n env \<Rightarrow> 'n MoneyAmount" where
  "primaryAmount P E =
     \<lparr>amount_value =
        convertCurrency (currencyConverter E) (amount_value (referenceAmount P))
          (amount_currency (referenceAmount P)) (primaryCurrency P),
      amount_currency = primaryCurrency P\<rparr>"

definition primaryTotalAmount :: "('n::plus) params \<Rightarrow> 'n env \<Rightarrow> 'n MoneyAmount" where
  "primaryTotalAmount P E =
     \<lparr>amount_value =
        convertCurrency (currencyConverter E) (totalAmount P E) BTC (primaryCurrency P),
      amount_currency = primaryCurrency P\<rparr>"

definition secondaryCurrency :: "'n params \<Rightarrow> currency" where
  "secondaryCurrency P = (if primaryCurrency P = BTC then USD else BTC)"

definition secondaryAmount :: "'n params \<Rightarrow> 'n env \<Rightarrow> 'n MoneyAmount" where
  "secondaryAmount P E =
     \<lparr>amount_value =
        convertCurrency (currencyConverter E) (amount_value (referenceAmount P))
          (amount_currency (referenceAmount P)) (secondaryCurrency P),
      amount_currency = secondaryCurrency P\<rparr>"

definition secondaryTotalAmount :: "('n::plus) params \<Rightarrow> 'n env \<Rightarrow> 'n MoneyAmount" where
  "secondaryTotalAmount P E =
     \<lparr>amount_value =
        convertCurrency (currencyConverter E) (totalAmount P E) BTC (secondaryCurrency P),
      amount_currency = secondaryCurrency P\<rparr>"

text \<open>The \<open>onPress\<close> and \<open>title\<close> props handed to the button.\<close>

definition onPress :: "('n::{plus,zero,ord}) params \<Rightarrow> 'n env \<Rightarrow> state \<Rightarrow> 'n effect list" where
  "onPress P E st =
     (if status st = Status_SUCCESS \<or> status st = Status_PENDING \<or> status st = Status_ERROR
      then [NavPop 2]
      else if length (errorMessage P E) > 0 then [NavPop 1]
      else pay P E)"

definition title :: "('n::{plus,ord}) params \<Rightarrow> 'n env \<Rightarrow> state \<Rightarrow> string" where
  "title P E st =
     (if status st = Status_SUCCESS \<or> status st = Status_PENDING \<or> status st = Status_ERROR
      then translate E ''common.close'' []
      else if length (errorMessage P E) > 0 then translate E ''common.cancel'' []
      else translate E ''SendBitcoinConfirmationScreen.confirmPayment'' [])"

text \<open>
  What the screen returns: the props of \<open>PaymentConfirmationInformation\<close> and of
  \<open>PaymentStatusIndicator\<close>, the error text and the two confirmation texts when they
  are shown, and the \<open>loading\<close> and \<open>title\<close> props of the button.
\<close>

record 'n information =
  info_fee :: "'n fee"
  info_destination :: string
  info_memo :: string
  info_primaryAmount :: "'n MoneyAmount"
  info_secondaryAmount :: "'n MoneyAmount"
  info_primaryTotalAmount :: "'n MoneyAmount"
  info_secondaryTotalAmount :: "'n MoneyAmount"

record 'n view =
  paymentInformation :: "'n information"
  indicator_errs :: "err list"
  indicator_status :: string
  errorText :: "string option"
  confirmationText :: "string list"
  button_loading :: bool
  button_title :: string

definition render :: "('n::{plus,ord}) params \<Rightarrow> 'n env \<Rightarrow> state \<Rightarrow> 'n view" where
  "render P E st =
     \<lparr>paymentInformation =
        \<lparr>info_fee = fee E,
         info_destination = destination P,
         info_memo = memo P,
         info_primaryAmount = primaryAmount P E,
         info_secondaryAmount = secondaryAmount P E,
         info_primaryTotalAmount = primaryTotalAmount P E,
         info_secondaryTotalAmount = secondaryTotalAmount P E\<rparr>,
      indicator_errs = errs st,
      indicator_status = status st,
      errorText =
        (if \<not> (status st = Status_SUCCESS \<or> status st = Status_PENDING)
            \<and> length (errorMessage P E) > 0
         then Some (errorMessage P E) else None),
      confirmationText =
        (if status st = ''idle'' then
           [translate E ''SendBitcoinConfirmationScreen.confirmPayment?'' [],
            translate E ''SendBitcoinConfirmationScreen.paymentFinal'' []]
         else []),
      button_loading = (status st = ''loading''),
      button_title = title P E st\<rparr>"

text \<open>
  The screen over time. Each press of the button comes with the environment of its
  moment, and a render can fall between any two effects of the callback (the
  \<open>loading\<close> state is the one seen while the mutation is awaited), so a session is a
  list of presses, each cut after some number of its effects.
\<close>

fun session :: "('n::{plus,zero,ord}) params \<Rightarrow> state \<Rightarrow> ('n env \<times> nat) list \<Rightarrow> state" where
  "session P st [] = st"
| "session P st ((E, k) # presses) = session P (run st (take k (onPress P E st))) presses"

section \<open>Authentication screen\<close>

text \<open>
  Modelled from the spec: the enum \<open>AuthenticationScreenPurpose\<close> (utils/enum) and
  \<open>BiometricWrapper.authenticate\<close> (utils/biometricAuthentication) are not among the
  sources. The screen names two members of the enum and has an \<open>else\<close> branch for any
  other; the wrapper presents the prompt of the platform and then calls the success
  callback, or the failure callback when the user cancels or taps out of the prompt.
\<close>

datatype AuthenticationScreenPurpose = Authenticate | TurnOnAuthentication | OtherPurpose

datatype biometric_outcome = PromptSucceeded | PromptFailed

text \<open>The calls the authentication screen makes on the platform and the navigator.\<close>

datatype auth_effect =
    BiometricAuthenticate "string option"
  | ResetPinAttempts
  | SetIsBiometricsEnabled
  | NavigationReplace string
  | CheckClipboard

definition handleAuthenticationSuccess :: "AuthenticationScreenPurpose \<Rightarrow> auth_effect list" where
  "handleAuthenticationSuccess screenPurpose =
     (if screenPurpose = Authenticate then
        [ResetPinAttempts, NavigationReplace ''Primary'', CheckClipboard]
      else if screenPurpose = TurnOnAuthentication then [SetIsBiometricsEnabled]
      else [])"

definition handleAuthenticationFailure :: "auth_effect list" where
  "handleAuthenticationFailure = []"

definition attemptAuthentication ::
  "(string \<Rightarrow> (string \<times> string) list \<Rightarrow> string) \<Rightarrow> AuthenticationScreenPurpose
     \<Rightarrow> biometric_outcome \<Rightarrow> auth_effect list" where
  "attemptAuthentication tr screenPurpose outcome =
     (let description =
        (if screenPurpose = Authenticate then
           Some (tr ''AuthenticationScreen.authenticationDescription'' [])
         else if screenPurpose = TurnOnAuthentication then
           Some (tr ''AuthenticationScreen.setUpAuthenticationDescription'' [])
         else None)
      in BiometricAuthenticate description #
         (case outcome of
            PromptSucceeded \<Rightarrow> handleAuthenticationSuccess screenPurpose
          | PromptFailed \<Rightarrow> handleAuthenticationFailure))"

section \<open>Sample inputs\<close>

text \<open>
  A payment of 5 sats to the user \<open>alice\<close>, with a fee of 1 sat and a balance of 100,
  numbers being integers; the sample backend rejects every mutation.
\<close>

definition sample_params :: "int params" where
  "sample_params =
     \<lparr>address = ''bc1qsampleaddress'',
      amountless = True,
      invoice = ''lnbc1sampleinvoice'',
      memo = ''coffee'',
      paymentType = ''username'',
      primaryCurrency = BTC,
      referenceAmount = \<lparr>amount_value = 5, amount_currency = BTC\<rparr>,
      sameNode = False,
      username = ''alice''\<rparr>"

definition sample_env :: "int env" where
  "sample_env =
     \<lparr>currencyConverter = (\<lambda>from to amount. if from = USD then amount * 2000 else amount div 2000),
      btcPrice = 2000,
      fee = \<lparr>fee_value = Some 1\<rparr>,
      balance = 100,
      isValid = (\<lambda>u. u = ''alice''),
      translate = (\<lambda>key options. key),
      textCurrencyFormatting = (\<lambda>amount price c. ''100 sats''),
      respond = (\<lambda>m. Rejected ''Error: Network request failed'')\<rparr>"

text \<open>A backend that answers every mutation with a failure and one error of its own.\<close>

definition failing_env :: "int env" where
  "failing_env =
     sample_env\<lparr>respond :=
       (\<lambda>m. Resolved \<lparr>payload_errors = [Message ''insufficient balance''],
                       payload_status = ''FAILURE''\<rparr> None)\<rparr>"

text \<open>A recipient the validation refuses, and an amount of zero.\<close>

definition refused_params :: "int params" where
  "refused_params =
     sample_params\<lparr>username := ''bc1'',
                    referenceAmount := \<lparr>amount_value = 0, amount_currency = BTC\<rparr>\<rparr>"

text \<open>An on-chain payment of zero sats.\<close>

definition zero_onchain_params :: "int params" where
  "zero_onchain_params =
     sample_params\<lparr>paymentType := ''onchain'',
                    referenceAmount := \<lparr>amount_value = 0, amount_currency = BTC\<rparr>\<rparr>"

text \<open>A wallet that holds less than the 6 sats the sample payment costs.\<close>

definition poor_env :: "int env" where
  "poor_env = sample_env\<lparr>balance := 3\<rparr>"

section \<open>Properties\<close>

text \<open>The members of \<open>StatusType\<close>, and the three of them that close the flow.\<close>

definition StatusType :: "string list" where
  "StatusType = [Status_IDLE, Status_LOADING, Status_PENDING, Status_SUCCESS, Status_ERROR]"

definition isClosed :: "string \<Rightarrow> bool" where
  "isClosed st \<longleftrightarrow> st = Status_SUCCESS \<or> st = Status_PENDING \<or> st = Status_ERROR"

text \<open>The four functions that \<open>pay\<close> chooses from.\<close>

definition paymentPaths :: "(('n::zero) params \<Rightarrow> 'n env \<Rightarrow> 'n effect list) list" where
  "paymentPaths = [payUsername, payLightning, payAmountlessLightning, payOnchain]"

lemmas Status_defs =
  Status_IDLE_def Status_LOADING_def Status_PENDING_def Status_SUCCESS_def Status_ERROR_def

subsection \<open>Running effects\<close>

lemma run_Nil: "run st [] = st"
  by (simp add: run_def)

lemma run_Cons: "run st (e # effs) = run (apply_effect st e) effs"
  by (simp add: run_def)

lemma status_run:
  "status (run st effs) = (if statuses effs = [] then status st else last (statuses effs))"
  unfolding run_def by (induction effs arbitrary: st rule: statuses.induct) auto

lemma statuses_take: "set (statuses (take k effs)) \<subseteq> set (statuses effs)"
  by (induction effs arbitrary: k rule: statuses.induct)
     (auto simp: take_Cons split: nat.splits)

lemma status_run_within:
  assumes "status st \<in> V" and "set (statuses effs) \<subseteq> V"
  shows "status (run st effs) \<in> V"
  using assms by (auto simp: status_run)

lemma mutations_afterAwait: "mutations (afterAwait r) = []"
  by (cases r) (simp_all add: afterAwait_def handlePaymentError_def handlePaymentReturn_def)

lemma no_Mutate_afterAwait: "Mutate m \<notin> set (afterAwait r)"
  by (cases r) (simp_all add: afterAwait_def handlePaymentError_def handlePaymentReturn_def)

lemma payUsername_Mutate:
  assumes "Mutate m \<in> set (payUsername P E)"
  shows "isValid E (username P) \<and>
    m = IntraLedgerPaymentSend (username P) (paymentSatAmount P E) (memo P)"
  using assms no_Mutate_afterAwait
  by (auto simp: payUsername_def Let_def split: if_splits)

lemma payLightning_Mutate:
  assumes "Mutate m \<in> set (payLightning P E)"
  shows "m = LnInvoicePaymentSend (invoice P) (memo P)"
  using assms no_Mutate_afterAwait
  by (auto simp: payLightning_def Let_def split: if_splits)

lemma payAmountlessLightning_Mutate:
  assumes "Mutate m \<in> set (payAmountlessLightning P E)"
  shows "paymentSatAmount P E \<noteq> 0 \<and>
    m = LnNoAmountInvoicePaymentSend (invoice P) (paymentSatAmount P E) (memo P)"
  using assms no_Mutate_afterAwait
  by (auto simp: payAmountlessLightning_def Let_def split: if_splits)

lemma payOnchain_Mutate:
  assumes "Mutate m \<in> set (payOnchain P E)"
  shows "paymentSatAmount P E \<noteq> 0 \<and>
    m = OnChainPaymentSend (address P) (paymentSatAmount P E) (memo P)"
  using assms no_Mutate_afterAwait
  by (auto simp: payOnchain_def Let_def split: if_splits)

lemma mutations_payUsername:
  "mutations (payUsername P E) =
     (if isValid E (username P)
      then [IntraLedgerPaymentSend (username P) (paymentSatAmount P E) (memo P)] else [])"
  by (simp add: payUsername_def Let_def mutations_afterAwait)

lemma mutations_payLightning:
  "mutations (payLightning P E) = [LnInvoicePaymentSend (invoice P) (memo P)]"
  by (simp add: payLightning_def Let_def mutations_afterAwait)

lemma mutations_payAmountlessLightning:
  "mutations (payAmountlessLightning P E) =
     (if paymentSatAmount P E = 0 then []
      else [LnNoAmountInvoicePaymentSend (invoice P) (paymentSatAmount P E) (memo P)])"
  by (simp add: payAmountlessLightning_def Let_def mutations_afterAwait)

lemma mutations_payOnchain:
  "mutations (payOnchain P E) =
     (if paymentSatAmount P E = 0 then []
      else [OnChainPaymentSend (address P) (paymentSatAmount P E) (memo P)])"
  by (simp add: payOnchain_def Let_def mutations_afterAwait)

lemmas mutations_paths =
  mutations_payUsername mutations_payLightning mutations_payAmountlessLightning
  mutations_payOnchain

lemma run_handlePaymentError:
  "run st (handlePaymentError e) =
     st\<lparr>status := Status_ERROR,
        errs := [Message (''an error occured. try again later'' @ [CHR 0x0A] @ e)]\<rparr>"
  by (simp add: handlePaymentError_def run_Cons run_Nil)

lemma run_handlePaymentReturn:
  "run st (handlePaymentReturn s es) =
     (if s = ''SUCCESS'' then st\<lparr>status := Status_SUCCESS\<rparr>
      else if s = ''PENDING'' then st\<lparr>status := Status_PENDING\<rparr>
      else st\<lparr>status := Status_ERROR, errs := es\<rparr>)"
  by (simp add: handlePaymentReturn_def run_Cons run_Nil)

lemma QueryWallet_handlePaymentReturn:
  "QueryWallet \<in> set (handlePaymentReturn s es) \<longleftrightarrow> s = ''SUCCESS''"
  by (simp add: handlePaymentReturn_def)

lemma path_after_Mutate:
  assumes "path \<in> set paymentPaths" and "Mutate m \<in> set (path P E)"
  shows "\<exists>before. path P E = before @ Mutate m # afterAwait (respond E m)
           \<and> run st before = \<lparr>errs = [], status = Status_LOADING\<rparr>
           \<and> mutations before = [] \<and> QueryWallet \<notin> set before"
proof -
  consider "path = payUsername" | "path = payLightning"
    | "path = payAmountlessLightning" | "path = payOnchain"
    using assms(1) by (auto simp: paymentPaths_def)
  then show ?thesis
  proof cases
    case 1
    with payUsername_Mutate [of m P E] assms(2) show ?thesis
      by (intro exI [of _ "[SetErrs [], SetStatus Status_LOADING]"])
         (simp add: payUsername_def Let_def run_Cons run_Nil)
  next
    case 2
    with payLightning_Mutate [of m P E] assms(2) show ?thesis
      by (intro exI [of _ "[SetErrs [], SetStatus Status_LOADING]"])
         (simp add: payLightning_def Let_def run_Cons run_Nil)
  next
    case 3
    with payAmountlessLightning_Mutate [of m P E] assms(2) show ?thesis
      by (intro exI [of _ "[SetErrs [], SetStatus Status_LOADING]"])
         (simp add: payAmountlessLightning_def Let_def run_Cons run_Nil)
  next
    case 4
    with payOnchain_Mutate [of m P E] assms(2) show ?thesis
      by (intro exI [of _ "[SetErrs [], SetStatus Status_LOADING, ConsoleLog ''AAAA'']"])
         (simp add: payOnchain_def Let_def run_Cons run_Nil)
  qed
qed

lemma run_append: "run st (xs @ ys) = run (run st xs) ys"
  by (simp add: run_def)

lemma mutations_append: "mutations (xs @ ys) = mutations xs @ mutations ys"
  by (induction xs rule: mutations.induct) simp_all

subsection \<open>Dispatch on the payment type\<close>

text \<open>
  Claim C1, as stated, has \<open>pay\<close> send the mutation of the payment type for every
  payment. An on-chain payment of zero sats is dispatched to \<open>payOnchain\<close>, which
  returns at its guard: no mutation is sent.
\<close>

theorem pay_dispatch_counterexample:
  "paymentType zero_onchain_params = ''onchain'' \<and>
   mutations (pay zero_onchain_params sample_env) = []"
  by (simp add: zero_onchain_params_def sample_params_def sample_env_def pay_def
      mutations_payOnchain paymentSatAmount_def convertCurrency_def)

text \<open>
  Claim C1, amended: \<open>pay\<close> looks the payment type up and sends at most one mutation,
  and exactly one when the guard of the chosen path lets it through.
  \<open>username\<close> with a user name that \<open>isValid\<close> accepts sends
  \<open>intraLedgerPaymentSend\<close> (recipient, amount in sats, memo); \<open>lightning\<close> with
  \<open>amountless\<close> and an amount other than zero sends \<open>lnNoAmountInvoicePaymentSend\<close>
  (payment request, amount, memo); \<open>lightning\<close> without \<open>amountless\<close> sends
  \<open>lnInvoicePaymentSend\<close> (payment request, memo); \<open>onchain\<close> with an amount other
  than zero sends \<open>onChainPaymentSend\<close> (address, amount, memo); any other payment
  type, and a guard that fails, sends nothing.
\<close>

theorem pay_dispatch:
  "mutations (pay P E) =
     (if paymentType P = ''username'' then
        (if isValid E (username P)
         then [IntraLedgerPaymentSend (username P) (paymentSatAmount P E) (memo P)] else [])
      else if paymentType P = ''lightning'' then
        (if amountless P then
           (if paymentSatAmount P E = 0 then []
            else [LnNoAmountInvoicePaymentSend (invoice P) (paymentSatAmount P E) (memo P)])
         else [LnInvoicePaymentSend (invoice P) (memo P)])
      else if paymentType P = ''onchain'' then
        (if paymentSatAmount P E = 0 then []
         else [OnChainPaymentSend (address P) (paymentSatAmount P E) (memo P)])
      else [])"
  by (simp add: pay_def mutations_paths)

text \<open>The five rows of the lookup on the sample payment.\<close>

theorem pay_dispatch_witness:
  "mutations (pay sample_params sample_env) = [IntraLedgerPaymentSend ''alice'' 5 ''coffee'']
   \<and> mutations (pay (sample_params\<lparr>paymentType := ''lightning''\<rparr>) sample_env)
       = [LnNoAmountInvoicePaymentSend ''lnbc1sampleinvoice'' 5 ''coffee'']
   \<and> mutations (pay (sample_params\<lparr>paymentType := ''lightning'', amountless := False\<rparr>) sample_env)
       = [LnInvoicePaymentSend ''lnbc1sampleinvoice'' ''coffee'']
   \<and> mutations (pay (sample_params\<lparr>paymentType := ''onchain''\<rparr>) sample_env)
       = [OnChainPaymentSend ''bc1qsampleaddress'' 5 ''coffee'']
   \<and> mutations (pay (sample_params\<lparr>paymentType := ''paypal''\<rparr>) sample_env) = []"
  using pay_dispatch [of sample_params sample_env]
    pay_dispatch [of "sample_params\<lparr>paymentType := ''lightning''\<rparr>" sample_env]
    pay_dispatch [of "sample_params\<lparr>paymentType := ''lightning'', amountless := False\<rparr>" sample_env]
    pay_dispatch [of "sample_params\<lparr>paymentType := ''onchain''\<rparr>" sample_env]
    pay_dispatch [of "sample_params\<lparr>paymentType := ''paypal''\<rparr>" sample_env]
  by (simp add: sample_params_def sample_env_def paymentSatAmount_def convertCurrency_def)

subsection \<open>Outcome of a mutation\<close>

text \<open>
  Claim C2: on each of the four payment paths, when the mutation that was sent throws,
  the exception is caught where the mutation was called: whatever the state was before,
  the status ends as \<open>error\<close> and the error list as the one message that ends with the
  text of the thrown value. Nothing else happens: the mutation was sent once and is not
  sent again.
\<close>

theorem thrown_exception_is_shown:
  assumes "path \<in> set paymentPaths"
    and "Mutate m \<in> set (path P E)"
    and "respond E m = Rejected e"
  shows "run st (path P E) =
           \<lparr>errs = [Message (''an error occured. try again later'' @ [CHR 0x0A] @ e)],
            status = Status_ERROR\<rparr>
         \<and> mutations (path P E) = [m]"
proof -
  from path_after_Mutate [OF assms(1,2), of st] obtain before where
    b: "path P E = before @ Mutate m # afterAwait (respond E m)"
      "run st before = \<lparr>errs = [], status = Status_LOADING\<rparr>" "mutations before = []"
    by blast
  have "afterAwait (respond E m) = (handlePaymentError e :: 'a effect list)"
    using assms(3) by (simp add: afterAwait_def)
  with b show ?thesis
    by (simp add: run_append run_Cons run_handlePaymentError mutations_append
        mutations_afterAwait [of "Rejected e", unfolded afterAwait_def, simplified])
qed

text \<open>The on-chain path of the sample payment against the rejecting backend.\<close>

theorem thrown_exception_is_shown_witness:
  "payOnchain \<in> set (paymentPaths :: (int params \<Rightarrow> int env \<Rightarrow> int effect list) list)
   \<and> Mutate (OnChainPaymentSend ''bc1qsampleaddress'' 5 ''coffee'')
       \<in> set (payOnchain sample_params sample_env)
   \<and> respond sample_env (OnChainPaymentSend ''bc1qsampleaddress'' 5 ''coffee'')
       = Rejected ''Error: Network request failed''
   \<and> run initial_state (payOnchain sample_params sample_env) =
       \<lparr>errs = [Message (''an error occured. try again later'' @ [CHR 0x0A]
                          @ ''Error: Network request failed'')],
        status = Status_ERROR\<rparr>
   \<and> mutations (payOnchain sample_params sample_env)
       = [OnChainPaymentSend ''bc1qsampleaddress'' 5 ''coffee'']"
proof -
  have 1: "payOnchain \<in> set (paymentPaths :: (int params \<Rightarrow> int env \<Rightarrow> int effect list) list)"
    by (simp add: paymentPaths_def)
  have 2: "Mutate (OnChainPaymentSend ''bc1qsampleaddress'' 5 ''coffee'')
       \<in> set (payOnchain sample_params sample_env)"
    by (simp add: payOnchain_def sample_params_def sample_env_def paymentSatAmount_def
        convertCurrency_def)
  have 3: "respond sample_env (OnChainPaymentSend ''bc1qsampleaddress'' 5 ''coffee'')
       = Rejected ''Error: Network request failed''"
    by (simp add: sample_env_def)
  from thrown_exception_is_shown [OF 1 2 3, of initial_state] 1 2 3 show ?thesis
    by simp
qed

text \<open>
  Claim C3: on each of the four payment paths, when the mutation that was sent returns,
  \<open>handlePaymentReturn\<close> turns the returned status into the state of the screen:
  \<open>SUCCESS\<close> gives \<open>success\<close> and is the one case in which the wallet is queried
  again, \<open>PENDING\<close> gives \<open>pending\<close>, and any other status gives \<open>error\<close> with the
  returned errors as the error list, which are the messages of the top-level errors of
  the response when it has any and the errors of the payload otherwise.
\<close>

theorem payment_return_is_shown:
  assumes "path \<in> set paymentPaths"
    and "Mutate m \<in> set (path P E)"
    and "respond E m = Resolved p errors"
  shows "run st (path P E) =
           (if payload_status p = ''SUCCESS'' then \<lparr>errs = [], status = Status_SUCCESS\<rparr>
            else if payload_status p = ''PENDING'' then \<lparr>errs = [], status = Status_PENDING\<rparr>
            else \<lparr>errs = (case errors of
                            Some es \<Rightarrow> map (\<lambda>error. Message (error_message error)) es
                          | None \<Rightarrow> payload_errors p),
                  status = Status_ERROR\<rparr>)
         \<and> (QueryWallet \<in> set (path P E) \<longleftrightarrow> payload_status p = ''SUCCESS'')
         \<and> mutations (path P E) = [m]"
proof -
  from path_after_Mutate [OF assms(1,2), of st] obtain before where
    b: "path P E = before @ Mutate m # afterAwait (respond E m)"
      "run st before = \<lparr>errs = [], status = Status_LOADING\<rparr>" "mutations before = []"
      "QueryWallet \<notin> set before"
    by blast
  have a: "afterAwait (respond E m) =
      (handlePaymentReturn (payload_status p)
        (case errors of Some es \<Rightarrow> map (\<lambda>error. Message (error_message error)) es
         | None \<Rightarrow> payload_errors p) :: 'a effect list)"
    using assms(3) by (simp add: afterAwait_def)
  have m: "mutations (afterAwait (respond E m) :: 'a effect list) = []"
    by (rule mutations_afterAwait)
  from b m show ?thesis unfolding a
    by (simp add: run_append run_Cons run_handlePaymentReturn mutations_append
        QueryWallet_handlePaymentReturn)
qed

text \<open>The user-name path of the sample payment against the failing backend.\<close>

theorem payment_return_is_shown_witness:
  "payUsername \<in> set (paymentPaths :: (int params \<Rightarrow> int env \<Rightarrow> int effect list) list)
   \<and> Mutate (IntraLedgerPaymentSend ''alice'' 5 ''coffee'')
       \<in> set (payUsername sample_params failing_env)
   \<and> respond failing_env (IntraLedgerPaymentSend ''alice'' 5 ''coffee'')
       = Resolved \<lparr>payload_errors = [Message ''insufficient balance''],
                   payload_status = ''FAILURE''\<rparr> None
   \<and> run initial_state (payUsername sample_params failing_env) =
       \<lparr>errs = [Message ''insufficient balance''], status = Status_ERROR\<rparr>
   \<and> QueryWallet \<notin> set (payUsername sample_params failing_env)"
proof -
  have 1: "payUsername \<in> set (paymentPaths :: (int params \<Rightarrow> int env \<Rightarrow> int effect list) list)"
    by (simp add: paymentPaths_def)
  have 2: "Mutate (IntraLedgerPaymentSend ''alice'' 5 ''coffee'')
       \<in> set (payUsername sample_params failing_env)"
    by (simp add: payUsername_def sample_params_def sample_env_def failing_env_def
        paymentSatAmount_def convertCurrency_def)
  have 3: "respond failing_env (IntraLedgerPaymentSend ''alice'' 5 ''coffee'')
       = Resolved \<lparr>payload_errors = [Message ''insufficient balance''],
                   payload_status = ''FAILURE''\<rparr> None"
    by (simp add: failing_env_def sample_env_def)
  from payment_return_is_shown [OF 1 2 3, of initial_state] 1 2 3 show ?thesis
    by simp
qed

subsection \<open>Guards\<close>

text \<open>
  Claim C4: each path checks its own precondition before it sends anything.
  \<open>payUsername\<close> with a user name that \<open>isValid\<close> refuses, and
  \<open>payAmountlessLightning\<close> and \<open>payOnchain\<close> with a satoshi amount of zero, do
  two things only: they set the status to \<open>error\<close> and the error list to one fixed
  message (invalid user name, no amount). No mutation is sent.
\<close>

theorem guards_stop_before_sending:
  "(\<not> isValid E (username P) \<longrightarrow>
      payUsername P E =
        [SetStatus Status_ERROR,
         SetErrs [Message (translate E ''SendBitcoinScreen.invalidUsername'' [])]]
      \<and> mutations (payUsername P E) = []
      \<and> run st (payUsername P E) =
          \<lparr>errs = [Message (translate E ''SendBitcoinScreen.invalidUsername'' [])],
           status = Status_ERROR\<rparr>)
   \<and> (paymentSatAmount P E = 0 \<longrightarrow>
      payAmountlessLightning P E =
        [SetStatus Status_ERROR,
         SetErrs [Message (translate E ''SendBitcoinScreen.noAmount'' [])]]
      \<and> mutations (payAmountlessLightning P E) = []
      \<and> run st (payAmountlessLightning P E) =
          \<lparr>errs = [Message (translate E ''SendBitcoinScreen.noAmount'' [])],
           status = Status_ERROR\<rparr>
      \<and> payOnchain P E =
        [SetStatus Status_ERROR,
         SetErrs [Message (translate E ''SendBitcoinScreen.noAmount'' [])]]
      \<and> mutations (payOnchain P E) = []
      \<and> run st (payOnchain P E) =
          \<lparr>errs = [Message (translate E ''SendBitcoinScreen.noAmount'' [])],
           status = Status_ERROR\<rparr>)"
  by (simp add: payUsername_def payAmountlessLightning_def payOnchain_def run_Cons run_Nil)

text \<open>The three guards on a refused recipient and an amount of zero.\<close>

theorem guards_stop_before_sending_witness:
  "\<not> isValid sample_env (username refused_params)
   \<and> paymentSatAmount refused_params sample_env = 0
   \<and> run initial_state (payUsername refused_params sample_env) =
       \<lparr>errs = [Message ''SendBitcoinScreen.invalidUsername''], status = Status_ERROR\<rparr>
   \<and> run initial_state (payAmountlessLightning refused_params sample_env) =
       \<lparr>errs = [Message ''SendBitcoinScreen.noAmount''], status = Status_ERROR\<rparr>
   \<and> run initial_state (payOnchain refused_params sample_env) =
       \<lparr>errs = [Message ''SendBitcoinScreen.noAmount''], status = Status_ERROR\<rparr>
   \<and> mutations (payUsername refused_params sample_env) = []
   \<and> mutations (payAmountlessLightning refused_params sample_env) = []
   \<and> mutations (payOnchain refused_params sample_env) = []"
proof -
  have 1: "\<not> isValid sample_env (username refused_params)"
    by (simp add: sample_env_def refused_params_def sample_params_def)
  have 2: "paymentSatAmount refused_params sample_env = 0"
    by (simp add: paymentSatAmount_def convertCurrency_def refused_params_def sample_params_def)
  have 3: "translate sample_env = (\<lambda>key options. key)"
    by (simp add: sample_env_def)
  from guards_stop_before_sending [of sample_env refused_params initial_state] 1 2 3
  show ?thesis by (simp add: run_Cons run_Nil initial_state_def)
qed

subsection \<open>The button\<close>

lemma isClosed_simps:
  "isClosed Status_SUCCESS" "isClosed Status_PENDING" "isClosed Status_ERROR"
  "\<not> isClosed Status_IDLE" "\<not> isClosed Status_LOADING"
  by (simp_all add: isClosed_def Status_defs)

lemma onPress_closed: "isClosed (status st) \<Longrightarrow> onPress P E st = [NavPop 2]"
  by (simp add: onPress_def isClosed_def)

lemma onPress_open:
  "\<not> isClosed (status st) \<Longrightarrow>
   onPress P E st = (if length (errorMessage P E) > 0 then [NavPop 1] else pay P E)"
  by (simp add: onPress_def isClosed_def)

lemma pay_cases: "pay P E = [] \<or> (\<exists>path \<in> set paymentPaths. pay P E = path P E)"
  by (simp add: pay_def paymentPaths_def)

lemma Mutate_in_mutations: "Mutate m \<in> set effs \<longleftrightarrow> m \<in> set (mutations effs)"
  by (induction effs rule: mutations.induct) auto

lemma closed_afterAwait: "isClosed (status (run st (afterAwait r)))"
  by (cases r)
     (simp_all add: afterAwait_def run_handlePaymentError run_handlePaymentReturn isClosed_simps)

lemma closed_after_path:
  assumes "path \<in> set paymentPaths" and "mutations (path P E) \<noteq> []"
  shows "isClosed (status (run st (path P E)))"
proof -
  from assms(2) obtain m where "m \<in> set (mutations (path P E))"
    by (cases "mutations (path P E)") auto
  then have "Mutate m \<in> set (path P E)"
    by (simp add: Mutate_in_mutations)
  from path_after_Mutate [OF assms(1) this, of st] obtain before where
    "path P E = before @ Mutate m # afterAwait (respond E m)"
    by blast
  then show ?thesis
    by (simp add: run_append run_Cons closed_afterAwait)
qed

text \<open>
  Claim C5: in every state where the total amount (the satoshi amount of the payment when
  the fee value is null, that amount plus the fee value otherwise) is above the BTC
  balance of the wallet and the status is none of \<open>success\<close>, \<open>pending\<close>, \<open>error\<close>,
  the button has the title \<open>cancel\<close>, and pressing it pops one screen and sends no
  mutation. The button tells the case by the length of the message it shows, so the
  translation of \<open>totalExceed\<close>, which comes from the i18n tables, has to be a
  non-empty text.
\<close>

theorem exceeding_total_cancels:
  assumes "translate E ''SendBitcoinConfirmationScreen.totalExceed''
             [(''balance'', textCurrencyFormatting E (balance E) (btcPrice E) (primaryCurrency P))]
           \<noteq> []"
    and "(case fee_value (fee E) of
            None \<Rightarrow> paymentSatAmount P E
          | Some v \<Rightarrow> paymentSatAmount P E + v) > balance E"
    and "\<not> isClosed (status st)"
  shows "totalAmount P E > balance E
         \<and> title P E st = translate E ''common.cancel'' []
         \<and> onPress P E st = [NavPop 1]
         \<and> mutations (onPress P E st) = []"
proof -
  from assms(2) have t: "totalAmount P E > balance E"
    by (simp add: totalAmount_def)
  with assms(1) have "length (errorMessage P E) > 0"
    by (simp add: errorMessage_def)
  with assms(3) t show ?thesis
    by (simp add: title_def onPress_def isClosed_def)
qed

text \<open>The sample payment of 5 sats and 1 sat of fee on a wallet of 3 sats.\<close>

theorem exceeding_total_cancels_witness:
  "translate poor_env ''SendBitcoinConfirmationScreen.totalExceed''
     [(''balance'', textCurrencyFormatting poor_env (balance poor_env) (btcPrice poor_env)
                      (primaryCurrency sample_params))] \<noteq> []
   \<and> (case fee_value (fee poor_env) of
         None \<Rightarrow> paymentSatAmount sample_params poor_env
       | Some v \<Rightarrow> paymentSatAmount sample_params poor_env + v) > balance poor_env
   \<and> \<not> isClosed (status initial_state)
   \<and> title sample_params poor_env initial_state = ''common.cancel''
   \<and> onPress sample_params poor_env initial_state = [NavPop 1]"
proof -
  have 1: "translate poor_env ''SendBitcoinConfirmationScreen.totalExceed''
     [(''balance'', textCurrencyFormatting poor_env (balance poor_env) (btcPrice poor_env)
                      (primaryCurrency sample_params))] \<noteq> []"
    by (simp add: poor_env_def sample_env_def)
  have 2: "(case fee_value (fee poor_env) of
         None \<Rightarrow> paymentSatAmount sample_params poor_env
       | Some v \<Rightarrow> paymentSatAmount sample_params poor_env + v) > balance poor_env"
    by (simp add: poor_env_def sample_env_def sample_params_def paymentSatAmount_def
        convertCurrency_def)
  have 3: "\<not> isClosed (status initial_state)"
    by (simp add: initial_state_def isClosed_simps)
  have 4: "translate poor_env ''common.cancel'' [] = ''common.cancel''"
    by (simp add: poor_env_def sample_env_def)
  from exceeding_total_cancels [OF 1 2 3] 1 2 3 4 show ?thesis
    by simp
qed

text \<open>
  Claim C6: there is no retry. In every state whose status is \<open>success\<close>,
  \<open>pending\<close> or \<open>error\<close>, pressing the button pops two screens and neither calls
  \<open>pay\<close> nor sends a mutation; and every press that did send a mutation leaves the
  screen in such a state.
\<close>

theorem no_retry:
  "(isClosed (status st) \<longrightarrow>
      onPress P E st = [NavPop 2] \<and> mutations (onPress P E st) = [])
   \<and> (mutations (onPress P E st) \<noteq> [] \<longrightarrow>
        isClosed (status (run st (onPress P E st))))"
proof (intro conjI impI)
  assume "isClosed (status st)"
  then show "onPress P E st = [NavPop 2]" by (rule onPress_closed)
  then show "mutations (onPress P E st) = []" by simp
next
  assume m: "mutations (onPress P E st) \<noteq> []"
  then have "onPress P E st = pay P E"
    by (cases "isClosed (status st)") (auto simp: onPress_closed onPress_open split: if_splits)
  moreover from this m pay_cases [of P E]
  obtain path where "path \<in> set paymentPaths" "pay P E = path P E"
    by auto
  ultimately show "isClosed (status (run st (onPress P E st)))"
    using m closed_after_path [of path P E st] by simp
qed

text \<open>Pressing twice on the sample payment: the first press pays, the second closes.\<close>

theorem no_retry_witness:
  "isClosed (status (run initial_state (onPress sample_params sample_env initial_state)))
   \<and> mutations (onPress sample_params sample_env initial_state)
        = [IntraLedgerPaymentSend ''alice'' 5 ''coffee'']
   \<and> onPress sample_params sample_env
        (run initial_state (onPress sample_params sample_env initial_state)) = [NavPop 2]
   \<and> mutations (onPress sample_params sample_env
        (run initial_state (onPress sample_params sample_env initial_state))) = []"
proof -
  have e: "errorMessage sample_params sample_env = []"
    by (simp add: errorMessage_def totalAmount_def paymentSatAmount_def convertCurrency_def
        sample_params_def sample_env_def)
  have "onPress sample_params sample_env initial_state = pay sample_params sample_env"
    by (simp add: onPress_open initial_state_def isClosed_simps e)
  then have 1: "mutations (onPress sample_params sample_env initial_state)
        = [IntraLedgerPaymentSend ''alice'' 5 ''coffee'']"
    by (simp add: pay_def mutations_payUsername sample_params_def sample_env_def
        paymentSatAmount_def convertCurrency_def)
  from 1 no_retry [of initial_state sample_params sample_env]
    no_retry [of "run initial_state (onPress sample_params sample_env initial_state)"
      sample_params sample_env]
  show ?thesis by simp
qed

subsection \<open>The status\<close>

lemma StatusType_members:
  "Status_IDLE \<in> set StatusType" "Status_LOADING \<in> set StatusType"
  "Status_PENDING \<in> set StatusType" "Status_SUCCESS \<in> set StatusType"
  "Status_ERROR \<in> set StatusType"
  by (simp_all add: StatusType_def)

lemma statuses_append: "statuses (xs @ ys) = statuses xs @ statuses ys"
  by (induction xs rule: statuses.induct) simp_all

lemma statuses_handlePaymentReturn:
  "set (statuses (handlePaymentReturn s es)) \<subseteq> set StatusType"
  by (simp add: handlePaymentReturn_def StatusType_members)

lemma statuses_handlePaymentError:
  "set (statuses (handlePaymentError e)) \<subseteq> set StatusType"
  by (simp add: handlePaymentError_def StatusType_members)

lemma statuses_afterAwait: "set (statuses (afterAwait r)) \<subseteq> set StatusType"
  by (cases r)
     (simp_all add: afterAwait_def statuses_handlePaymentReturn statuses_handlePaymentError)

lemma statuses_payUsername: "set (statuses (payUsername P E)) \<subseteq> set StatusType"
  by (simp add: payUsername_def Let_def statuses_afterAwait StatusType_members)

lemma statuses_payLightning: "set (statuses (payLightning P E)) \<subseteq> set StatusType"
  by (simp add: payLightning_def Let_def statuses_afterAwait StatusType_members)

lemma statuses_payAmountlessLightning:
  "set (statuses (payAmountlessLightning P E)) \<subseteq> set StatusType"
  by (simp add: payAmountlessLightning_def Let_def statuses_afterAwait StatusType_members)

lemma statuses_payOnchain: "set (statuses (payOnchain P E)) \<subseteq> set StatusType"
  by (simp add: payOnchain_def Let_def statuses_afterAwait StatusType_members)

lemmas statuses_paths =
  statuses_payUsername statuses_payLightning statuses_payAmountlessLightning
  statuses_payOnchain

lemma statuses_pay: "set (statuses (pay P E)) \<subseteq> set StatusType"
  by (simp add: pay_def statuses_paths)

lemma statuses_onPress: "set (statuses (onPress P E st)) \<subseteq> set StatusType"
  by (simp add: onPress_def statuses_pay)

lemma session_within:
  "status st \<in> set StatusType \<Longrightarrow> status (session P st presses) \<in> set StatusType"
proof (induction presses arbitrary: st)
  case Nil
  then show ?case by simp
next
  case (Cons press presses)
  obtain E k where press: "press = (E, k)" by (cases press)
  have "set (statuses (take k (onPress P E st))) \<subseteq> set StatusType"
    using statuses_take statuses_onPress by blast
  with Cons.prems have "status (run st (take k (onPress P E st))) \<in> set StatusType"
    by (rule status_run_within)
  then show ?case
    unfolding press by (simp add: Cons.IH)
qed

text \<open>
  Claim C7: the status is always one of exactly five values, \<open>idle\<close>, \<open>loading\<close>,
  \<open>pending\<close>, \<open>success\<close> and \<open>error\<close>. It starts as \<open>idle\<close>; every status
  that a guard, a payment path, \<open>pay\<close>, \<open>handlePaymentReturn\<close>,
  \<open>handlePaymentError\<close> or the button sets is one of the five; and so is the status
  at every moment of every session of the screen.
\<close>

theorem status_stays_in_StatusType:
  "distinct StatusType \<and> length StatusType = 5
   \<and> status initial_state = Status_IDLE
   \<and> (\<forall>s \<in> set (statuses (payUsername P E)) \<union> set (statuses (payLightning P E))
            \<union> set (statuses (payAmountlessLightning P E)) \<union> set (statuses (payOnchain P E))
            \<union> set (statuses (pay P E))
            \<union> set (statuses (handlePaymentReturn r es :: 'n effect list))
            \<union> set (statuses (handlePaymentError e :: 'n effect list))
            \<union> set (statuses (onPress P E st)).
        s \<in> set StatusType)
   \<and> status (session P initial_state presses) \<in> set StatusType"
proof (intro conjI)
  show "distinct StatusType" "length StatusType = 5"
    by (simp_all add: StatusType_def Status_defs)
  show "status initial_state = Status_IDLE"
    by (simp add: initial_state_def)
  show "\<forall>s \<in> set (statuses (payUsername P E)) \<union> set (statuses (payLightning P E))
            \<union> set (statuses (payAmountlessLightning P E)) \<union> set (statuses (payOnchain P E))
            \<union> set (statuses (pay P E))
            \<union> set (statuses (handlePaymentReturn r es :: 'n effect list))
            \<union> set (statuses (handlePaymentError e :: 'n effect list))
            \<union> set (statuses (onPress P E st)).
        s \<in> set StatusType"
    using statuses_paths [of P E] statuses_pay [of P E] statuses_onPress [of P E st]
      statuses_handlePaymentReturn [of r es, where 'a = 'n]
      statuses_handlePaymentError [of e, where 'a = 'n]
    by blast
  show "status (session P initial_state presses) \<in> set StatusType"
    by (rule session_within) (simp add: initial_state_def StatusType_members)
qed

text \<open>The statuses set by the first press on the sample payment, and a session of two presses.\<close>

theorem status_stays_in_StatusType_witness:
  "statuses (onPress sample_params sample_env initial_state) = [''loading'', ''error'']
   \<and> ''loading'' \<in> set StatusType \<and> ''error'' \<in> set StatusType
   \<and> status (session sample_params initial_state [(sample_env, 2), (sample_env, 6)])
       \<in> set StatusType"
proof -
  have e: "errorMessage sample_params sample_env = []"
    by (simp add: errorMessage_def totalAmount_def paymentSatAmount_def convertCurrency_def
        sample_params_def sample_env_def)
  have p: "pay sample_params sample_env = payUsername sample_params sample_env"
    by (simp add: pay_def sample_params_def)
  have "onPress sample_params sample_env initial_state = pay sample_params sample_env"
    by (simp add: onPress_open initial_state_def isClosed_simps e)
  with p have 1: "statuses (onPress sample_params sample_env initial_state)
      = [''loading'', ''error'']"
    by (simp add: payUsername_def sample_params_def sample_env_def afterAwait_def
        handlePaymentError_def Status_defs)
  then have 2: "''loading'' \<in> set (statuses (onPress sample_params sample_env initial_state))"
    and 3: "''error'' \<in> set (statuses (onPress sample_params sample_env initial_state))"
    by simp_all
  from 1 2 3 status_stays_in_StatusType [of sample_params sample_env "''SUCCESS''" "[]"
      "''Error''" initial_state "[(sample_env, 2), (sample_env, 6)]"]
  show ?thesis by blast
qed

text \<open>
  Claim C8, as stated, has the title of the button and the text on the screen as the only
  things that depend on the status. Between the initial state and the same state with
  status \<open>success\<close> two side effects differ as well: pressing the button sends a
  mutation in the first and pops two screens in the second, and the haptic feedback is
  triggered in the second only.
\<close>

theorem status_frame_counterexample:
  "errs initial_state = errs (initial_state\<lparr>status := Status_SUCCESS\<rparr>)
   \<and> onPress sample_params sample_env initial_state
        \<noteq> onPress sample_params sample_env (initial_state\<lparr>status := Status_SUCCESS\<rparr>)
   \<and> mutations (onPress sample_params sample_env initial_state)
        = [IntraLedgerPaymentSend ''alice'' 5 ''coffee'']
   \<and> onPress sample_params sample_env (initial_state\<lparr>status := Status_SUCCESS\<rparr>) = [NavPop 2]
   \<and> (hapticEffect (status initial_state) :: int effect list) = []
   \<and> (hapticEffect (status (initial_state\<lparr>status := Status_SUCCESS\<rparr>)) :: int effect list)
        = [HapticTrigger (Some ''notificationSuccess'')]"
proof -
  have e: "errorMessage sample_params sample_env = []"
    by (simp add: errorMessage_def totalAmount_def paymentSatAmount_def convertCurrency_def
        sample_params_def sample_env_def)
  have "onPress sample_params sample_env initial_state = pay sample_params sample_env"
    by (simp add: onPress_open initial_state_def isClosed_simps e)
  then have 1: "mutations (onPress sample_params sample_env initial_state)
        = [IntraLedgerPaymentSend ''alice'' 5 ''coffee'']"
    by (simp add: pay_def mutations_payUsername sample_params_def sample_env_def
        paymentSatAmount_def convertCurrency_def)
  have 2: "onPress sample_params sample_env (initial_state\<lparr>status := Status_SUCCESS\<rparr>)
      = [NavPop 2]"
    by (simp add: onPress_closed isClosed_simps)
  have 3: "(hapticEffect (status initial_state) :: int effect list) = []"
    by (simp add: hapticEffect_def initial_state_def Status_defs)
  have 4: "(hapticEffect (status (initial_state\<lparr>status := Status_SUCCESS\<rparr>)) :: int effect list)
        = [HapticTrigger (Some ''notificationSuccess'')]"
    by (simp add: hapticEffect_def Status_defs)
  from 1 2 have 5: "onPress sample_params sample_env initial_state
        \<noteq> onPress sample_params sample_env (initial_state\<lparr>status := Status_SUCCESS\<rparr>)"
    by auto
  from 1 2 3 4 5 show ?thesis by simp
qed

text \<open>
  Claim C8, amended: the status decides what the button and the texts show, and with
  them what a press of the button does and whether the haptic feedback is triggered.
  Two states that differ only in the status show the same payment information (fee,
  destination, memo, amounts and totals); a press has the same effects and the button
  the same title whenever both statuses or neither are among \<open>success\<close>,
  \<open>pending\<close>, \<open>error\<close>; and the haptic feedback is triggered for every status
  but \<open>loading\<close> and \<open>idle\<close>.
\<close>

theorem status_frame:
  "paymentInformation (render P E st) = paymentInformation (render P E st')
   \<and> (isClosed (status st) = isClosed (status st') \<longrightarrow> onPress P E st = onPress P E st')
   \<and> (isClosed (status st) = isClosed (status st') \<longrightarrow>
        button_title (render P E st) = button_title (render P E st'))
   \<and> ((hapticEffect (status st) :: 'n effect list) = [] \<longleftrightarrow>
        status st = ''loading'' \<or> status st = ''idle'')"
proof (intro conjI impI)
  show "paymentInformation (render P E st) = paymentInformation (render P E st')"
    by (simp add: render_def)
next
  assume c: "isClosed (status st) = isClosed (status st')"
  show "onPress P E st = onPress P E st'"
  proof (cases "isClosed (status st)")
    case True
    with c show ?thesis by (simp add: onPress_closed)
  next
    case False
    with c show ?thesis by (simp add: onPress_open)
  qed
  from c show "button_title (render P E st) = button_title (render P E st')"
    by (simp add: render_def title_def isClosed_def)
next
  show "((hapticEffect (status st) :: 'n effect list) = []) \<longleftrightarrow>
        (status st = ''loading'' \<or> status st = ''idle'')"
    by (simp add: hapticEffect_def Let_def)
qed

text \<open>The initial state of the sample payment against its \<open>loading\<close> and \<open>success\<close> variants.\<close>

theorem status_frame_witness:
  "isClosed (status initial_state)
     = isClosed (status (initial_state\<lparr>status := Status_LOADING\<rparr>))
   \<and> onPress sample_params sample_env initial_state
       = onPress sample_params sample_env (initial_state\<lparr>status := Status_LOADING\<rparr>)
   \<and> paymentInformation (render sample_params sample_env initial_state)
       = paymentInformation (render sample_params sample_env
           (initial_state\<lparr>status := Status_SUCCESS\<rparr>))"
proof -
  have 1: "isClosed (status initial_state)
     = isClosed (status (initial_state\<lparr>status := Status_LOADING\<rparr>))"
    by (simp add: initial_state_def isClosed_simps)
  from 1 status_frame [of sample_params sample_env initial_state
      "initial_state\<lparr>status := Status_LOADING\<rparr>"]
  have 2: "onPress sample_params sample_env initial_state
       = onPress sample_params sample_env (initial_state\<lparr>status := Status_LOADING\<rparr>)"
    by blast
  from status_frame [of sample_params sample_env initial_state
      "initial_state\<lparr>status := Status_SUCCESS\<rparr>"]
  have 3: "paymentInformation (render sample_params sample_env initial_state)
       = paymentInformation (render sample_params sample_env
           (initial_state\<lparr>status := Status_SUCCESS\<rparr>))"
    by blast
  from 1 2 3 show ?thesis by blast
qed

subsection \<open>Authentication\<close>

text \<open>
  Claim C9: after a successful biometric prompt the purpose of the screen decides what
  happens. With \<open>Authenticate\<close> the PIN attempts are reset, the navigator replaces
  the stack by \<open>Primary\<close> and the clipboard is checked; with
  \<open>TurnOnAuthentication\<close> the biometrics flag is set in the key store. After a failed
  or cancelled prompt nothing is done.
\<close>

theorem authentication_outcome:
  "handleAuthenticationSuccess Authenticate
     = [ResetPinAttempts, NavigationReplace ''Primary'', CheckClipboard]
   \<and> handleAuthenticationSuccess TurnOnAuthentication = [SetIsBiometricsEnabled]
   \<and> handleAuthenticationFailure = []
   \<and> attemptAuthentication tr Authenticate PromptSucceeded
       = [BiometricAuthenticate (Some (tr ''AuthenticationScreen.authenticationDescription'' [])),
          ResetPinAttempts, NavigationReplace ''Primary'', CheckClipboard]
   \<and> attemptAuthentication tr TurnOnAuthentication PromptSucceeded
       = [BiometricAuthenticate
            (Some (tr ''AuthenticationScreen.setUpAuthenticationDescription'' [])),
          SetIsBiometricsEnabled]
   \<and> tl (attemptAuthentication tr screenPurpose PromptFailed) = []"
  by (simp add: handleAuthenticationSuccess_def handleAuthenticationFailure_def
      attemptAuthentication_def)

text \<open>Unlocking succeeds; a prompt that fails leaves the prompt itself as the only call.\<close>

theorem authentication_outcome_witness:
  "attemptAuthentication (\<lambda>key options. key) Authenticate PromptSucceeded
       = [BiometricAuthenticate (Some ''AuthenticationScreen.authenticationDescription''),
          ResetPinAttempts, NavigationReplace ''Primary'', CheckClipboard]
   \<and> attemptAuthentication (\<lambda>key options. key) OtherPurpose PromptFailed
       = [BiometricAuthenticate None]"
proof -
  have "attemptAuthentication (\<lambda>key options. key) OtherPurpose PromptFailed
       = [BiometricAuthenticate None]"
    by (simp add: attemptAuthentication_def handleAuthenticationFailure_def)
  with authentication_outcome [of "\<lambda>key options. key"] show ?thesis by simp
qed

subsection \<open>Currency conversion\<close>

text \<open>
  Claim C10: \<open>convertCurrency\<close> returns the amount as it is when the two currencies
  are the same, whatever the converter is: the converter is not consulted.
\<close>

theorem convertCurrency_same:
  "convertCurrency converter amount c c = amount"
  by (simp add: convertCurrency_def)

text \<open>The same result with the sample converter and with one that adds 1.\<close>

theorem convertCurrency_same_witness:
  "convertCurrency (currencyConverter sample_env) 5 USD USD = 5
   \<and> convertCurrency (\<lambda>from to amount. amount + 1) (5 :: int) BTC BTC = 5"
  using convertCurrency_same [of "currencyConverter sample_env" 5 USD]
    convertCurrency_same [of "\<lambda>from to amount. amount + 1" "5 :: int" BTC]
  by simp

end
